theory Spec2Isabelle
  imports Main
begin

section \<open>Values of the game\<close>

text \<open>
  The program is \<^verbatim>\<open>src/src/App.tsx\<close>. The file holds two renderings of the same game: the
  first (lines 1--192) builds the store with \<^verbatim>\<open>combine\<close>, the second (lines 193--377) declares
  the store's type and names the table \<^verbatim>\<open>WINNING_LINES\<close>. Every function below is shared by both
  renderings unless its comment says otherwise; the one function whose body differs between them,
  \<^verbatim>\<open>calculateStatus\<close>, is embedded twice.

  A square has the TypeScript type \<^verbatim>\<open>string | null\<close>. Reading an array outside its bounds, or at
  a hole, yields \<^verbatim>\<open>undefined\<close>, so the embedding carries that third value as well.
\<close>

datatype cell = Undefined | Null | Str string

type_synonym board = "cell list"

text \<open>JavaScript truthiness, as used by \<^verbatim>\<open>if (x)\<close>, \<^verbatim>\<open>!x\<close>, \<^verbatim>\<open>x && y\<close> and \<^verbatim>\<open>x || y\<close>:
  \<^verbatim>\<open>undefined\<close>, \<^verbatim>\<open>null\<close> and the empty string are falsy, every other string is truthy.\<close>

fun truthy :: "cell \<Rightarrow> bool" where
  "truthy Undefined = False"
| "truthy Null = False"
| "truthy (Str s) = (s \<noteq> [])"

text \<open>The text a template literal \<^verbatim>\<open>${x}\<close> inserts for a value.\<close>

fun toText :: "cell \<Rightarrow> string" where
  "toText Undefined = ''undefined''"
| "toText Null = ''null''"
| "toText (Str s) = s"

text \<open>\<^verbatim>\<open>squares[i]\<close>: the element, or \<^verbatim>\<open>undefined\<close> outside the array. An \<^const>\<open>Undefined\<close> stored
  in a board stands for a hole of a sparse array, which reads as \<^verbatim>\<open>undefined\<close> too.\<close>

definition cellAt :: "board \<Rightarrow> nat \<Rightarrow> cell" where
  "cellAt squares i = (if i < length squares then squares ! i else Undefined)"

section \<open>The win and status evaluator\<close>

text \<open>The table of lines: \<^verbatim>\<open>lines\<close> inside \<^verbatim>\<open>calculateWinner\<close> (lines 38--47) and the constant
  \<^verbatim>\<open>WINNING_LINES\<close> (lines 232--241) list the same eight triples in the same order.\<close>

definition WINNING_LINES :: "(nat \<times> nat \<times> nat) list" where
  "WINNING_LINES =
     [(0, 1, 2), (3, 4, 5), (6, 7, 8),
      (0, 3, 6), (1, 4, 7), (2, 5, 8),
      (0, 4, 8), (2, 4, 6)]"

text \<open>The loop of \<^verbatim>\<open>calculateWinner\<close> over the remaining lines: the first line that matches
  returns, and running out of lines returns \<^verbatim>\<open>null\<close>.\<close>

fun winnerLoop :: "(nat \<times> nat \<times> nat) list \<Rightarrow> board \<Rightarrow> cell" where
  "winnerLoop [] squares = Null"
| "winnerLoop ((a, b, c) # rest) squares =
     (if truthy (cellAt squares a) \<and> cellAt squares a = cellAt squares b \<and> cellAt squares a = cellAt squares c
      then cellAt squares a
      else winnerLoop rest squares)"

definition calculateWinner :: "board \<Rightarrow> cell" where
  "calculateWinner squares = winnerLoop WINNING_LINES squares"

text \<open>\<^verbatim>\<open>squares.filter((square) => square !== null).length\<close>. \<^verbatim>\<open>filter\<close> does not visit the
  holes of a sparse array, so they are not counted.\<close>

definition calculateTurns :: "board \<Rightarrow> int" where
  "calculateTurns squares =
     int (length (filter (\<lambda>square. square \<noteq> Null \<and> square \<noteq> Undefined) squares))"

text \<open>\<^verbatim>\<open>calculateStatus\<close> of the first rendering (lines 62--66). \<^verbatim>\<open>!turns\<close> holds of the number
  \<^verbatim>\<open>0\<close> only.\<close>

definition calculateStatus :: "cell \<Rightarrow> int \<Rightarrow> string \<Rightarrow> string" where
  "calculateStatus winner turns player =
     (if \<not> truthy winner \<and> turns = 0 then ''Draw''
      else if truthy winner then ''Winner: '' @ toText winner
      else ''Next player: '' @ player)"

text \<open>\<^verbatim>\<open>calculateStatus\<close> of the second rendering (lines 256--260).\<close>

definition calculateStatus2 :: "cell \<Rightarrow> int \<Rightarrow> string \<Rightarrow> string" where
  "calculateStatus2 winner turns player =
     (if truthy winner then ''Winner: '' @ toText winner
      else if turns = 9 then ''Draw''
      else ''Next player: '' @ player)"

section \<open>The store\<close>

text \<open>The state of \<^verbatim>\<open>useGameStore\<close> (lines 4--35 and 195--230). \<^verbatim>\<open>currentMove\<close> is a number; the
  embedding takes the integers, negative ones included.\<close>

record state =
  history :: "board list"
  currentMove :: int

text \<open>\<^verbatim>\<open>history: [Array(9).fill(null)], currentMove: 0\<close>.\<close>

definition initialState :: state where
  "initialState = \<lparr>history = [replicate 9 Null], currentMove = 0\<rparr>"

text \<open>A setter takes either the next value or a function of the current one
  (\<^verbatim>\<open>typeof next === "function"\<close>).\<close>

datatype 'a setterArg = Direct 'a | Updater "'a \<Rightarrow> 'a"

definition setHistory :: "board list setterArg \<Rightarrow> state \<Rightarrow> state" where
  "setHistory nextHistory s =
     s\<lparr>history := (case nextHistory of Updater f \<Rightarrow> f (history s) | Direct v \<Rightarrow> v)\<rparr>"

definition setCurrentMove :: "int setterArg \<Rightarrow> state \<Rightarrow> state" where
  "setCurrentMove nextCurrentMove s =
     s\<lparr>currentMove := (case nextCurrentMove of Updater f \<Rightarrow> f (currentMove s) | Direct v \<Rightarrow> v)\<rparr>"

section \<open>The board component\<close>

text \<open>\<^verbatim>\<open>const player = xIsNext ? "X" : "O"\<close>.\<close>

definition playerOf :: "bool \<Rightarrow> string" where
  "playerOf xIsNext = (if xIsNext then ''X'' else ''O'')"

text \<open>The status line \<^verbatim>\<open>Board\<close> renders, in the first and in the second rendering.\<close>

definition boardStatus :: "bool \<Rightarrow> board \<Rightarrow> string" where
  "boardStatus xIsNext squares =
     calculateStatus (calculateWinner squares) (calculateTurns squares) (playerOf xIsNext)"

definition boardStatus2 :: "bool \<Rightarrow> board \<Rightarrow> string" where
  "boardStatus2 xIsNext squares =
     calculateStatus2 (calculateWinner squares) (calculateTurns squares) (playerOf xIsNext)"

text \<open>\<^verbatim>\<open>nextSquares[i] = player\<close> on the copy \<^verbatim>\<open>squares.slice()\<close>: inside the array the element is
  replaced; beyond its end JavaScript lengthens the array, leaving holes before index \<open>i\<close>.\<close>

definition assign :: "board \<Rightarrow> nat \<Rightarrow> cell \<Rightarrow> board" where
  "assign squares i v =
     (if i < length squares then squares[i := v]
      else squares @ replicate (i - length squares) Undefined @ [v])"

text \<open>\<^verbatim>\<open>handleClick\<close> (lines 110--115 and 301--306), closed over the properties \<^verbatim>\<open>xIsNext\<close>,
  \<^verbatim>\<open>squares\<close> and \<^verbatim>\<open>onPlay\<close> of the board; \<^verbatim>\<open>onPlay\<close> acts on the store.\<close>

definition handleClick ::
  "bool \<Rightarrow> board \<Rightarrow> (board \<Rightarrow> state \<Rightarrow> state) \<Rightarrow> nat \<Rightarrow> state \<Rightarrow> state" where
  "handleClick xIsNext squares onPlay i s =
     (if truthy (cellAt squares i) \<or> truthy (calculateWinner squares) then s
      else onPlay (assign squares i (Str (playerOf xIsNext))) s)"

section \<open>The game component\<close>

text \<open>The handlers of \<^verbatim>\<open>Game\<close> and \<^verbatim>\<open>Board\<close> close over the values of \<^verbatim>\<open>history\<close> and
  \<^verbatim>\<open>currentMove\<close> read when the page was last rendered. The page is rendered again after every
  change of the store and handlers run one at a time, so these are the fields of the state in
  which the handler runs.\<close>

text \<open>\<^verbatim>\<open>currentMove % 2 === 0\<close>. The remainder of JavaScript takes the sign of the dividend, that of
  HOL is never negative; both are zero for the same integers.\<close>

definition xIsNext :: "state \<Rightarrow> bool" where
  "xIsNext s = (currentMove s mod 2 = 0)"

text \<open>\<^verbatim>\<open>history[currentMove]\<close>: \<open>None\<close> is \<^verbatim>\<open>undefined\<close>, read outside the array.\<close>

definition currentSquares :: "state \<Rightarrow> board option" where
  "currentSquares s =
     (if 0 \<le> currentMove s \<and> currentMove s < int (length (history s))
      then Some (history s ! nat (currentMove s)) else None)"

text \<open>\<^verbatim>\<open>xs.slice(0, end)\<close>: a negative second argument counts from the end of the array, and the result is
  clipped to the array.\<close>

definition sliceTo :: "'a list \<Rightarrow> int \<Rightarrow> 'a list" where
  "sliceTo xs stop =
     (let len = int (length xs);
          final = (if stop < 0 then max (len + stop) 0 else min stop len)
      in take (nat final) xs)"

text \<open>\<^verbatim>\<open>handlePlay\<close> (lines 150--154 and 341--345).\<close>

definition handlePlay :: "board \<Rightarrow> state \<Rightarrow> state" where
  "handlePlay nextSquares s =
     (let nextHistory = sliceTo (history s) (currentMove s + 1) @ [nextSquares]
      in setCurrentMove (Direct (int (length nextHistory) - 1))
           (setHistory (Direct nextHistory) s))"

text \<open>\<^verbatim>\<open>jumpTo\<close> (lines 156--158 and 347--349).\<close>

definition jumpTo :: "int \<Rightarrow> state \<Rightarrow> state" where
  "jumpTo nextMove s = setCurrentMove (Direct nextMove) s"

text \<open>What \<^verbatim>\<open>Game\<close> renders. The board is rendered from \<^verbatim>\<open>history[currentMove]\<close>; when that is
  \<^verbatim>\<open>undefined\<close>, \<^verbatim>\<open>calculateWinner\<close> reads an index of \<^verbatim>\<open>undefined\<close> and the rendering throws.\<close>

datatype error = TypeError

definition gameStatus :: "state \<Rightarrow> error + string" where
  "gameStatus s =
     (case currentSquares s of None \<Rightarrow> Inl TypeError
      | Some squares \<Rightarrow> Inr (boardStatus (xIsNext s) squares))"

definition gameStatus2 :: "state \<Rightarrow> error + string" where
  "gameStatus2 s =
     (case currentSquares s of None \<Rightarrow> Inl TypeError
      | Some squares \<Rightarrow> Inr (boardStatus2 (xIsNext s) squares))"

text \<open>A click on square \<open>i\<close> of the rendered board: \<^verbatim>\<open>handleClick(i)\<close> with the properties
  \<^verbatim>\<open>Game\<close> passes to \<^verbatim>\<open>Board\<close>.\<close>

definition clickSquare :: "nat \<Rightarrow> state \<Rightarrow> error + state" where
  "clickSquare i s =
     (case currentSquares s of None \<Rightarrow> Inl TypeError
      | Some squares \<Rightarrow> Inr (handleClick (xIsNext s) squares handlePlay i s))"

section \<open>Events of the rendered page\<close>

text \<open>The page offers one button per square of the displayed board (\<^verbatim>\<open>squares.map\<close>, which
  skips holes) and one button per history entry (\<^verbatim>\<open>history.map\<close>). An event names one of these
  buttons; \<open>None\<close> says that the page in state \<open>s\<close> has no such button.\<close>

datatype event = SquareClick nat | JumpClick nat

fun uiStep :: "state \<Rightarrow> event \<Rightarrow> state option" where
  "uiStep s (SquareClick i) =
     (case currentSquares s of None \<Rightarrow> None
      | Some squares \<Rightarrow>
          if i < length squares \<and> squares ! i \<noteq> Undefined
          then Some (handleClick (xIsNext s) squares handlePlay i s) else None)"
| "uiStep s (JumpClick i) =
     (if i < length (history s) then Some (jumpTo (int i) s) else None)"

fun uiRun :: "state \<Rightarrow> event list \<Rightarrow> state option" where
  "uiRun s [] = Some s"
| "uiRun s (e # es) = (case uiStep s e of None \<Rightarrow> None | Some s' \<Rightarrow> uiRun s' es)"

section \<open>Notions used in the statements\<close>

text \<open>A line is filled on a board when its first square holds a marker (a truthy value) and the
  other two squares hold the same value: the test of the loop in \<^verbatim>\<open>calculateWinner\<close>.\<close>

definition lineFilled :: "board \<Rightarrow> nat \<times> nat \<times> nat \<Rightarrow> bool" where
  "lineFilled squares l =
     (case l of (a, b, c) \<Rightarrow>
        truthy (cellAt squares a) \<and> cellAt squares b = cellAt squares a
        \<and> cellAt squares c = cellAt squares a)"

text \<open>The invariant of the data model: the history is not empty and \<^verbatim>\<open>currentMove\<close> is one of
  its indices.\<close>

definition storeInvariant :: "state \<Rightarrow> bool" where
  "storeInvariant s =
     (1 \<le> length (history s) \<and> 0 \<le> currentMove s \<and> currentMove s < int (length (history s)))"

text \<open>The boards of the data model: nine squares, each empty or holding one of the two markers
  that \<^verbatim>\<open>handleClick\<close> writes.\<close>

definition boardOk :: "board \<Rightarrow> bool" where
  "boardOk squares =
     (length squares = 9 \<and> set squares \<subseteq> {Null, Str ''X'', Str ''O''})"

definition historyOk :: "state \<Rightarrow> bool" where
  "historyOk s = (set (history s) \<subseteq> Collect boardOk)"

text \<open>A full board without a filled line, and the nine clicks that reach it from the start.\<close>

definition drawnBoard :: board where
  "drawnBoard =
     [Str ''X'', Str ''O'', Str ''X'',
      Str ''X'', Str ''O'', Str ''O'',
      Str ''O'', Str ''X'', Str ''X'']"

definition drawnGame :: "event list" where
  "drawnGame = map SquareClick [0, 1, 2, 4, 3, 5, 7, 6, 8]"

text \<open>The turn derivation of the data model: an even move index means that X moves next.\<close>

definition markerOfMove :: "int \<Rightarrow> string" where
  "markerOfMove m = (if even m then ''X'' else ''O'')"

text \<open>Five moves that fill no line.\<close>

definition fiveMoves :: "event list" where
  "fiveMoves = map SquareClick [0, 1, 2, 3, 4]"

section \<open>Facts about the evaluator\<close>

lemma winnerLoop_Cons:
  "winnerLoop (l # rest) squares =
     (if lineFilled squares l then cellAt squares (fst l) else winnerLoop rest squares)"
  by (cases l) (auto simp: lineFilled_def)

lemma winnerLoop_none:
  "\<forall>l \<in> set ls. \<not> lineFilled squares l \<Longrightarrow> winnerLoop ls squares = Null"
  by (induction ls) (simp_all add: winnerLoop_Cons del: winnerLoop.simps(2))

lemma winnerLoop_split:
  "lineFilled squares l
   \<Longrightarrow> \<forall>l' \<in> set pre. lineFilled squares l' \<longrightarrow> cellAt squares (fst l') = cellAt squares (fst l)
   \<Longrightarrow> winnerLoop (pre @ l # post) squares = cellAt squares (fst l)"
  by (induction pre) (simp_all add: winnerLoop_Cons del: winnerLoop.simps(2))

lemma winnerLoop_first_filled:
  assumes k: "k < length ls"
    and filled: "lineFilled squares (ls ! k)"
    and before: "\<forall>j<k. lineFilled squares (ls ! j)
                   \<longrightarrow> cellAt squares (fst (ls ! j)) = cellAt squares (fst (ls ! k))"
  shows "winnerLoop ls squares = cellAt squares (fst (ls ! k))"
proof -
  have ls: "ls = take k ls @ ls ! k # drop (Suc k) ls"
    using k by (rule id_take_nth_drop)
  have "\<forall>l' \<in> set (take k ls). lineFilled squares l'
          \<longrightarrow> cellAt squares (fst l') = cellAt squares (fst (ls ! k))"
  proof (intro ballI impI)
    fix l'
    assume "l' \<in> set (take k ls)" and f: "lineFilled squares l'"
    then obtain j where "j < length (take k ls)" and "take k ls ! j = l'"
      by (auto simp: in_set_conv_nth)
    then have "j < k" and "ls ! j = l'"
      by simp_all
    with before f show "cellAt squares (fst l') = cellAt squares (fst (ls ! k))"
      by blast
  qed
  with filled have "winnerLoop (take k ls @ ls ! k # drop (Suc k) ls) squares
      = cellAt squares (fst (ls ! k))"
    by (rule winnerLoop_split)
  with ls show ?thesis by simp
qed

text \<open>\<^verbatim>\<open>calculateWinner\<close> returns \<^verbatim>\<open>null\<close> or a marker, never a falsy string: for its
  results, being truthy and not being \<^verbatim>\<open>null\<close> are the same.\<close>

lemma winnerLoop_Null_or_truthy:
  "winnerLoop ls squares = Null \<or> truthy (winnerLoop ls squares)"
  by (induction ls) (simp_all add: winnerLoop_Cons lineFilled_def del: winnerLoop.simps(2) split: prod.splits)

lemma calculateWinner_truthy_iff:
  "truthy (calculateWinner squares) \<longleftrightarrow> calculateWinner squares \<noteq> Null"
  using winnerLoop_Null_or_truthy [of WINNING_LINES squares]
  by (auto simp: calculateWinner_def)

lemma calculateWinner_drawnBoard: "calculateWinner drawnBoard = Null"
  by (simp add: drawnBoard_def calculateWinner_def WINNING_LINES_def cellAt_def)

lemma calculateTurns_drawnBoard: "calculateTurns drawnBoard = 9"
  by (simp add: drawnBoard_def calculateTurns_def)

text \<open>The second rendering of \<^verbatim>\<open>calculateStatus\<close> announces a draw exactly on a full board
  without a winner, and the next player on every other board without a winner.\<close>

lemma calculateStatus2_draw: "\<not> truthy winner \<Longrightarrow> calculateStatus2 winner 9 player = ''Draw''"
  by (simp add: calculateStatus2_def)

lemma calculateStatus2_next_player:
  "\<not> truthy winner \<Longrightarrow> turns \<noteq> 9
   \<Longrightarrow> calculateStatus2 winner turns player = ''Next player: '' @ player"
  by (simp add: calculateStatus2_def)

text \<open>Where the two renderings of \<^verbatim>\<open>calculateStatus\<close> agree.\<close>

lemma calculateStatus_agreement:
  "calculateStatus winner turns player = calculateStatus2 winner turns player
   \<longleftrightarrow> truthy winner \<or> (turns \<noteq> 0 \<and> turns \<noteq> 9)"
  by (auto simp: calculateStatus_def calculateStatus2_def)

section \<open>Claims about the evaluator\<close>

text \<open>
  C1. For a board with no winner and all nine squares filled the status is \<^verbatim>\<open>"Draw"\<close>.
  The first rendering of \<^verbatim>\<open>calculateStatus\<close> does not say so: its draw test \<^verbatim>\<open>!turns\<close> holds
  when no square is filled, not when all nine are. On the full board \<^const>\<open>drawnBoard\<close>, which
  has no filled line and is reached from the start by the nine clicks of \<^const>\<open>drawnGame\<close>, it
  announces the next player; the second rendering announces the draw.
\<close>

theorem status_full_board_first_rendering:
  "calculateWinner drawnBoard = Null \<and> calculateTurns drawnBoard = 9
   \<and> calculateStatus Null 9 ''O'' = ''Next player: O''
   \<and> boardStatus False drawnBoard = ''Next player: O''
   \<and> boardStatus2 False drawnBoard = ''Draw''
   \<and> map_option (\<lambda>s. (currentSquares s, gameStatus s, gameStatus2 s))
        (uiRun initialState drawnGame)
       = Some (Some drawnBoard, Inr ''Next player: O'', Inr ''Draw'')"
proof -
  have "map_option (\<lambda>s. (currentSquares s, gameStatus s, gameStatus2 s))
        (uiRun initialState drawnGame)
       = Some (Some drawnBoard, Inr ''Next player: O'', Inr ''Draw'')"
    by code_simp
  then show ?thesis
    by (simp add: boardStatus_def boardStatus2_def calculateWinner_drawnBoard
        calculateTurns_drawnBoard calculateStatus_def calculateStatus2_def playerOf_def)
qed

text \<open>
  C2. For a board with no winner and at least one empty square the status is
  \<^verbatim>\<open>"Next player: "\<close> followed by the next player, the empty board included.
  The first rendering of \<^verbatim>\<open>calculateStatus\<close> answers \<^verbatim>\<open>"Draw"\<close> on the empty board, the very
  first board of every game; the second rendering announces player X.
\<close>

theorem status_empty_board_first_rendering:
  "calculateWinner (replicate 9 Null) = Null \<and> calculateTurns (replicate 9 Null) = 0
   \<and> calculateStatus Null 0 ''X'' = ''Draw''
   \<and> gameStatus initialState = Inr ''Draw''
   \<and> gameStatus2 initialState = Inr ''Next player: X''"
  by (simp add: gameStatus_def gameStatus2_def initialState_def currentSquares_def xIsNext_def
      boardStatus_def boardStatus2_def calculateWinner_def WINNING_LINES_def cellAt_def
      calculateTurns_def calculateStatus_def calculateStatus2_def playerOf_def)

text \<open>
  C10. The two renderings of \<^verbatim>\<open>calculateStatus\<close> return the same text on every input.
  They do not: without a winner they differ when no square is filled and when all nine are.
\<close>

theorem calculateStatus_renderings_differ:
  "calculateStatus Null 0 ''X'' = ''Draw''
   \<and> calculateStatus2 Null 0 ''X'' = ''Next player: X''
   \<and> calculateStatus Null 9 ''O'' = ''Next player: O''
   \<and> calculateStatus2 Null 9 ''O'' = ''Draw''"
  by (simp add: calculateStatus_def calculateStatus2_def)

text \<open>
  C7. Whenever a winner exists the status is \<^verbatim>\<open>"Winner: "\<close> followed by the winner, whatever
  the number of filled squares and the next player. A winner is a marker, that is a non-empty
  string: it is what \<^verbatim>\<open>calculateWinner\<close> returns when it does not return \<^verbatim>\<open>null\<close>. Both
  renderings of \<^verbatim>\<open>calculateStatus\<close> agree here. In particular, on every board whose squares
  0, 1 and 2 hold X, the winner is X and the status line is \<^verbatim>\<open>"Winner: X"\<close>.
\<close>

theorem status_winner:
  "(w \<noteq> [] \<longrightarrow> calculateStatus (Str w) turns player = ''Winner: '' @ w
                \<and> calculateStatus2 (Str w) turns player = ''Winner: '' @ w)
   \<and> (calculateWinner board \<noteq> Null \<longrightarrow>
        calculateStatus (calculateWinner board) turns player
          = ''Winner: '' @ toText (calculateWinner board)
        \<and> calculateStatus2 (calculateWinner board) turns player
          = ''Winner: '' @ toText (calculateWinner board))
   \<and> (cellAt squares 0 = Str ''X'' \<and> cellAt squares 1 = Str ''X'' \<and> cellAt squares 2 = Str ''X''
        \<longrightarrow> calculateWinner squares = Str ''X''
          \<and> boardStatus xNext squares = ''Winner: X''
          \<and> boardStatus2 xNext squares = ''Winner: X'')"
proof (intro conjI impI)
  assume "w \<noteq> []"
  then show "calculateStatus (Str w) turns player = ''Winner: '' @ w"
    and "calculateStatus2 (Str w) turns player = ''Winner: '' @ w"
    by (simp_all add: calculateStatus_def calculateStatus2_def)
next
  assume "calculateWinner board \<noteq> Null"
  then have "truthy (calculateWinner board)"
    by (simp add: calculateWinner_truthy_iff)
  then show "calculateStatus (calculateWinner board) turns player
          = ''Winner: '' @ toText (calculateWinner board)"
    and "calculateStatus2 (calculateWinner board) turns player
          = ''Winner: '' @ toText (calculateWinner board)"
    by (simp_all add: calculateStatus_def calculateStatus2_def)
next
  assume "cellAt squares 0 = Str ''X'' \<and> cellAt squares 1 = Str ''X'' \<and> cellAt squares 2 = Str ''X''"
  then have w: "calculateWinner squares = Str ''X''"
    by (simp add: calculateWinner_def WINNING_LINES_def)
  show "calculateWinner squares = Str ''X''" by (rule w)
  show "boardStatus xNext squares = ''Winner: X''"
    by (simp add: boardStatus_def w calculateStatus_def)
  show "boardStatus2 xNext squares = ''Winner: X''"
    by (simp add: boardStatus2_def w calculateStatus2_def)
qed

theorem status_winner_witness:
  "''O'' \<noteq> [] \<and> calculateStatus (Str ''O'') 6 ''X'' = ''Winner: O''
   \<and> calculateStatus2 (Str ''O'') 6 ''X'' = ''Winner: O''
   \<and> calculateWinner [Null, Str ''O'', Str ''X'', Str ''X'', Str ''O'', Null, Str ''X'', Str ''O'', Null]
        \<noteq> Null
   \<and> calculateStatus
        (calculateWinner [Null, Str ''O'', Str ''X'', Str ''X'', Str ''O'', Null, Str ''X'', Str ''O'', Null])
        6 ''X'' = ''Winner: O''
   \<and> cellAt [Str ''X'', Str ''X'', Str ''X'', Str ''O'', Str ''O'', Null, Null, Null, Null] 0 = Str ''X''
   \<and> cellAt [Str ''X'', Str ''X'', Str ''X'', Str ''O'', Str ''O'', Null, Null, Null, Null] 1 = Str ''X''
   \<and> cellAt [Str ''X'', Str ''X'', Str ''X'', Str ''O'', Str ''O'', Null, Null, Null, Null] 2 = Str ''X''
   \<and> calculateWinner [Str ''X'', Str ''X'', Str ''X'', Str ''O'', Str ''O'', Null, Null, Null, Null]
        = Str ''X''
   \<and> boardStatus False [Str ''X'', Str ''X'', Str ''X'', Str ''O'', Str ''O'', Null, Null, Null, Null]
        = ''Winner: X''"
proof -
  have w: "calculateWinner [Null, Str ''O'', Str ''X'', Str ''X'', Str ''O'', Null, Str ''X'', Str ''O'', Null]
      = Str ''O''"
    by (simp add: calculateWinner_def WINNING_LINES_def cellAt_def)
  have c: "cellAt [Str ''X'', Str ''X'', Str ''X'', Str ''O'', Str ''O'', Null, Null, Null, Null] 0 = Str ''X''
     \<and> cellAt [Str ''X'', Str ''X'', Str ''X'', Str ''O'', Str ''O'', Null, Null, Null, Null] 1 = Str ''X''
     \<and> cellAt [Str ''X'', Str ''X'', Str ''X'', Str ''O'', Str ''O'', Null, Null, Null, Null] 2 = Str ''X''"
    by (simp add: cellAt_def)
  show ?thesis
    using status_winner [of "''O''" 6 "''X''"
        "[Null, Str ''O'', Str ''X'', Str ''X'', Str ''O'', Null, Str ''X'', Str ''O'', Null]"
        "[Str ''X'', Str ''X'', Str ''X'', Str ''O'', Str ''O'', Null, Null, Null, Null]" False]
      w c
    by simp
qed

text \<open>
  C4. \<^verbatim>\<open>calculateWinner\<close> checks the eight lines of the grid (three rows, three columns, two
  diagonals) in the order of the table and returns the marker of the first filled line, or
  \<^verbatim>\<open>null\<close> when no line is filled. A board that holds a line filled with a marker has that
  marker as its winner when no line earlier in the table is filled with another marker.
\<close>

theorem winner_first_filled_line:
  "WINNING_LINES =
     map (\<lambda>r. (3 * r, 3 * r + 1, 3 * r + 2)) [0, 1, 2]
     @ map (\<lambda>c. (c, c + 3, c + 6)) [0, 1, 2]
     @ [(0, 4, 8), (2, 4, 6)]
   \<and> ((\<forall>l \<in> set WINNING_LINES. \<not> lineFilled blank l) \<longrightarrow> calculateWinner blank = Null)
   \<and> (k < length WINNING_LINES \<and> lineFilled squares (WINNING_LINES ! k)
        \<and> (\<forall>j<k. \<not> lineFilled squares (WINNING_LINES ! j))
      \<longrightarrow> calculateWinner squares = cellAt squares (fst (WINNING_LINES ! k))
          \<and> calculateWinner squares = cellAt squares (fst (snd (WINNING_LINES ! k)))
          \<and> calculateWinner squares = cellAt squares (snd (snd (WINNING_LINES ! k)))
          \<and> truthy (calculateWinner squares))
   \<and> (n < length WINNING_LINES \<and> lineFilled squares' (WINNING_LINES ! n)
        \<and> (\<forall>j<n. lineFilled squares' (WINNING_LINES ! j)
               \<longrightarrow> cellAt squares' (fst (WINNING_LINES ! j)) = cellAt squares' (fst (WINNING_LINES ! n)))
      \<longrightarrow> calculateWinner squares' = cellAt squares' (fst (WINNING_LINES ! n)))"
proof (intro conjI impI)
  show "WINNING_LINES =
     map (\<lambda>r. (3 * r, 3 * r + 1, 3 * r + 2)) [0, 1, 2]
     @ map (\<lambda>c. (c, c + 3, c + 6)) [0, 1, 2]
     @ [(0, 4, 8), (2, 4, 6)]"
    by (simp add: WINNING_LINES_def)
next
  assume "\<forall>l \<in> set WINNING_LINES. \<not> lineFilled blank l"
  then show "calculateWinner blank = Null"
    unfolding calculateWinner_def by (rule winnerLoop_none)
next
  assume h: "k < length WINNING_LINES \<and> lineFilled squares (WINNING_LINES ! k)
        \<and> (\<forall>j<k. \<not> lineFilled squares (WINNING_LINES ! j))"
  then have k: "k < length WINNING_LINES" and f: "lineFilled squares (WINNING_LINES ! k)"
    and b: "\<forall>j<k. lineFilled squares (WINNING_LINES ! j)
      \<longrightarrow> cellAt squares (fst (WINNING_LINES ! j)) = cellAt squares (fst (WINNING_LINES ! k))"
    by simp_all
  have w: "calculateWinner squares = cellAt squares (fst (WINNING_LINES ! k))"
    unfolding calculateWinner_def using k f b by (rule winnerLoop_first_filled)
  show "calculateWinner squares = cellAt squares (fst (WINNING_LINES ! k))" by (rule w)
  from f w show "calculateWinner squares = cellAt squares (fst (snd (WINNING_LINES ! k)))"
    by (cases "WINNING_LINES ! k") (simp add: lineFilled_def)
  from f w show "calculateWinner squares = cellAt squares (snd (snd (WINNING_LINES ! k)))"
    by (cases "WINNING_LINES ! k") (simp add: lineFilled_def)
  from f w show "truthy (calculateWinner squares)"
    by (cases "WINNING_LINES ! k") (simp add: lineFilled_def)
next
  assume h: "n < length WINNING_LINES \<and> lineFilled squares' (WINNING_LINES ! n)
        \<and> (\<forall>j<n. lineFilled squares' (WINNING_LINES ! j)
               \<longrightarrow> cellAt squares' (fst (WINNING_LINES ! j)) = cellAt squares' (fst (WINNING_LINES ! n)))"
  then have n: "n < length WINNING_LINES" and f: "lineFilled squares' (WINNING_LINES ! n)"
    and b: "\<forall>j<n. lineFilled squares' (WINNING_LINES ! j)
      \<longrightarrow> cellAt squares' (fst (WINNING_LINES ! j)) = cellAt squares' (fst (WINNING_LINES ! n))"
    by simp_all
  show "calculateWinner squares' = cellAt squares' (fst (WINNING_LINES ! n))"
    unfolding calculateWinner_def using n f b by (rule winnerLoop_first_filled)
qed

theorem winner_second_line_counterexample:
  "lineFilled [Str ''X'', Str ''X'', Str ''X'', Str ''O'', Str ''O'', Str ''O'', Null, Null, Null] (3, 4, 5)
   \<and> (3, 4, 5) \<in> set WINNING_LINES
   \<and> cellAt [Str ''X'', Str ''X'', Str ''X'', Str ''O'', Str ''O'', Str ''O'', Null, Null, Null] 3 = Str ''O''
   \<and> calculateWinner [Str ''X'', Str ''X'', Str ''X'', Str ''O'', Str ''O'', Str ''O'', Null, Null, Null]
       = Str ''X''"
  by (simp add: lineFilled_def cellAt_def calculateWinner_def WINNING_LINES_def)

theorem winner_first_filled_line_witness:
  "calculateWinner (replicate 9 Null) = Null
   \<and> lineFilled [Str ''O'', Str ''X'', Null, Str ''X'', Str ''X'', Str ''X'', Null, Null, Str ''O'']
        (WINNING_LINES ! 1)
   \<and> \<not> lineFilled [Str ''O'', Str ''X'', Null, Str ''X'', Str ''X'', Str ''X'', Null, Null, Str ''O'']
        (WINNING_LINES ! 0)
   \<and> calculateWinner [Str ''O'', Str ''X'', Null, Str ''X'', Str ''X'', Str ''X'', Null, Null, Str ''O'']
        = Str ''X''
   \<and> lineFilled [Str ''X'', Str ''X'', Str ''X'', Str ''X'', Str ''O'', Str ''O'', Str ''X'', Str ''O'', Null]
        (WINNING_LINES ! 3)
   \<and> lineFilled [Str ''X'', Str ''X'', Str ''X'', Str ''X'', Str ''O'', Str ''O'', Str ''X'', Str ''O'', Null]
        (WINNING_LINES ! 0)
   \<and> calculateWinner [Str ''X'', Str ''X'', Str ''X'', Str ''X'', Str ''O'', Str ''O'', Str ''X'', Str ''O'', Null]
        = Str ''X''"
proof -
  have three: "\<And>P. (\<forall>j<3. P j) \<longleftrightarrow> P (0::nat) \<and> P 1 \<and> P 2"
    by (auto simp: numeral_3_eq_3 less_Suc_eq numeral_2_eq_2)
  have h0: "\<forall>l \<in> set WINNING_LINES. \<not> lineFilled (replicate 9 Null) l"
    by (simp add: WINNING_LINES_def lineFilled_def cellAt_def)
  have h1: "1 < length WINNING_LINES
     \<and> lineFilled [Str ''O'', Str ''X'', Null, Str ''X'', Str ''X'', Str ''X'', Null, Null, Str ''O'']
          (WINNING_LINES ! 1)
     \<and> (\<forall>j<1. \<not> lineFilled
          [Str ''O'', Str ''X'', Null, Str ''X'', Str ''X'', Str ''X'', Null, Null, Str ''O'']
          (WINNING_LINES ! j))"
    by (simp add: WINNING_LINES_def lineFilled_def cellAt_def)
  have h3: "3 < length WINNING_LINES
     \<and> lineFilled [Str ''X'', Str ''X'', Str ''X'', Str ''X'', Str ''O'', Str ''O'', Str ''X'', Str ''O'', Null]
          (WINNING_LINES ! 3)
     \<and> (\<forall>j<3. lineFilled
          [Str ''X'', Str ''X'', Str ''X'', Str ''X'', Str ''O'', Str ''O'', Str ''X'', Str ''O'', Null]
          (WINNING_LINES ! j)
        \<longrightarrow> cellAt [Str ''X'', Str ''X'', Str ''X'', Str ''X'', Str ''O'', Str ''O'', Str ''X'', Str ''O'', Null]
              (fst (WINNING_LINES ! j))
            = cellAt [Str ''X'', Str ''X'', Str ''X'', Str ''X'', Str ''O'', Str ''O'', Str ''X'', Str ''O'', Null]
                (fst (WINNING_LINES ! 3)))"
    by (simp add: three WINNING_LINES_def lineFilled_def cellAt_def)
  have v1: "cellAt [Str ''O'', Str ''X'', Null, Str ''X'', Str ''X'', Str ''X'', Null, Null, Str ''O'']
      (fst (WINNING_LINES ! 1)) = Str ''X''"
    by (simp add: WINNING_LINES_def cellAt_def)
  have v3: "cellAt [Str ''X'', Str ''X'', Str ''X'', Str ''X'', Str ''O'', Str ''O'', Str ''X'', Str ''O'', Null]
      (fst (WINNING_LINES ! 3)) = Str ''X''"
    by (simp add: WINNING_LINES_def cellAt_def)
  note T = winner_first_filled_line [of "replicate 9 Null" 1
      "[Str ''O'', Str ''X'', Null, Str ''X'', Str ''X'', Str ''X'', Null, Null, Str ''O'']" 3
      "[Str ''X'', Str ''X'', Str ''X'', Str ''X'', Str ''O'', Str ''O'', Str ''X'', Str ''O'', Null]"]
  note r0 = T [THEN conjunct2, THEN conjunct1, THEN mp, OF h0]
  note r1 = T [THEN conjunct2, THEN conjunct2, THEN conjunct1, THEN mp, OF h1, THEN conjunct1]
  note r3 = T [THEN conjunct2, THEN conjunct2, THEN conjunct2, THEN mp, OF h3]
  from r1 v1 have w1:
    "calculateWinner [Str ''O'', Str ''X'', Null, Str ''X'', Str ''X'', Str ''X'', Null, Null, Str ''O'']
      = Str ''X''"
    by (rule trans)
  from r3 v3 have w3:
    "calculateWinner [Str ''X'', Str ''X'', Str ''X'', Str ''X'', Str ''O'', Str ''O'', Str ''X'', Str ''O'', Null]
      = Str ''X''"
    by (rule trans)
  have f0: "\<not> lineFilled [Str ''O'', Str ''X'', Null, Str ''X'', Str ''X'', Str ''X'', Null, Null, Str ''O'']
      (WINNING_LINES ! 0)"
    by (simp add: WINNING_LINES_def lineFilled_def cellAt_def)
  have f3: "lineFilled [Str ''X'', Str ''X'', Str ''X'', Str ''X'', Str ''O'', Str ''O'', Str ''X'', Str ''O'', Null]
      (WINNING_LINES ! 0)"
    by (simp add: WINNING_LINES_def lineFilled_def cellAt_def)
  from r0 h1 f0 w1 h3 f3 w3 show ?thesis
    by - (elim conjE, (intro conjI; assumption))
qed

section \<open>Facts about the game\<close>

lemma sliceTo_in_range:
  "0 \<le> m \<Longrightarrow> m < int (length xs) \<Longrightarrow> sliceTo xs (m + 1) = take (nat m + 1) xs"
  by (simp add: sliceTo_def Let_def min_def nat_add_distrib)

lemma handlePlay_fields:
  "history (handlePlay b s) = sliceTo (history s) (currentMove s + 1) @ [b]"
  "currentMove (handlePlay b s) = int (length (history (handlePlay b s))) - 1"
  by (simp_all add: handlePlay_def Let_def setHistory_def setCurrentMove_def)

lemma handlePlay_in_range:
  assumes "0 \<le> currentMove s" and "currentMove s < int (length (history s))"
  shows "handlePlay b s =
     s\<lparr>history := take (nat (currentMove s) + 1) (history s) @ [b],
       currentMove := currentMove s + 1\<rparr>"
proof -
  from assms have "nat (currentMove s) + 1 \<le> length (history s)"
    by linarith
  with assms show ?thesis
    by (simp add: handlePlay_def Let_def setHistory_def setCurrentMove_def sliceTo_in_range
        min_def)
qed

text \<open>Whatever the state before, \<^verbatim>\<open>handlePlay\<close> leaves a state that satisfies the invariant.\<close>

lemma storeInvariant_handlePlay: "storeInvariant (handlePlay b s)"
  by (simp add: storeInvariant_def handlePlay_fields)

lemma storeInvariant_handleClick:
  "storeInvariant s \<Longrightarrow> storeInvariant (handleClick x squares handlePlay i s)"
  by (simp add: handleClick_def storeInvariant_handlePlay)

lemma storeInvariant_jumpTo:
  "i < length (history s) \<Longrightarrow> storeInvariant (jumpTo (int i) s)"
  by (simp add: storeInvariant_def jumpTo_def setCurrentMove_def)

lemma storeInvariant_initialState: "storeInvariant initialState"
  by (simp add: storeInvariant_def initialState_def)

lemma storeInvariant_uiStep:
  "storeInvariant s \<Longrightarrow> uiStep s e = Some s' \<Longrightarrow> storeInvariant s'"
  by (cases e)
    (auto simp: storeInvariant_handleClick storeInvariant_jumpTo
      split: option.splits if_splits)

lemma storeInvariant_uiRun:
  "storeInvariant s \<Longrightarrow> uiRun s es = Some s' \<Longrightarrow> storeInvariant s'"
proof (induction es arbitrary: s)
  case Nil
  then show ?case by simp
next
  case (Cons e es)
  from Cons.prems(2) obtain t where t: "uiStep s e = Some t" and r: "uiRun t es = Some s'"
    by (auto split: option.splits)
  from Cons.prems(1) t have "storeInvariant t"
    by (rule storeInvariant_uiStep)
  then show ?case using r by (rule Cons.IH)
qed

text \<open>In a state that satisfies the invariant the board is rendered, and every button the page
  shows can be clicked.\<close>

lemma currentSquares_invariant:
  "storeInvariant s \<Longrightarrow> currentSquares s = Some (history s ! nat (currentMove s))"
  by (simp add: storeInvariant_def currentSquares_def)

lemma clickSquare_invariant:
  "storeInvariant s \<Longrightarrow> clickSquare i s \<noteq> Inl TypeError"
  by (simp add: clickSquare_def currentSquares_invariant)

lemma full_board_truthy:
  assumes "calculateTurns squares = int (length squares)"
    and "\<forall>c \<in> set squares. c = Null \<or> truthy c"
    and "i < length squares"
  shows "truthy (cellAt squares i)"
proof -
  let ?P = "\<lambda>square. square \<noteq> Null \<and> square \<noteq> Undefined"
  from assms(1) have len: "length (filter ?P squares) = length squares"
    by (simp add: calculateTurns_def)
  have "?P (squares ! i)"
  proof (rule ccontr)
    assume "\<not> ?P (squares ! i)"
    with assms(3) have "length (filter ?P squares) < length squares"
      by (intro length_filter_less [of "squares ! i"]) simp_all
    with len show False by simp
  qed
  moreover from assms(2,3) have "squares ! i = Null \<or> truthy (squares ! i)"
    by simp
  ultimately show ?thesis using assms(3) by (simp add: cellAt_def)
qed

lemma currentSquares_handlePlay:
  assumes "0 \<le> currentMove s" and "currentMove s < int (length (history s))"
  shows "currentSquares (handlePlay b s) = Some b"
proof -
  define pre where "pre = take (nat (currentMove s) + 1) (history s)"
  from assms have "nat (currentMove s) + 1 \<le> length (history s)"
    by linarith
  then have "length pre = nat (currentMove s) + 1"
    by (simp add: pre_def)
  with assms(1) have l: "int (length pre) = currentMove s + 1"
    by simp
  have h: "history (handlePlay b s) = pre @ [b]"
    by (simp add: handlePlay_in_range [OF assms] pre_def)
  have c: "currentMove (handlePlay b s) = int (length pre)"
    by (simp add: handlePlay_in_range [OF assms] l)
  show ?thesis
    unfolding currentSquares_def h c by simp
qed

lemma currentSquares_range:
  "currentSquares s = Some squares
   \<Longrightarrow> 0 \<le> currentMove s \<and> currentMove s < int (length (history s))"
  by (simp add: currentSquares_def split: if_splits)

text \<open>Every board in the history of a state reached from the initial state through the page is a
  board of the data model. On such a board a square is occupied, in the sense of
  \<^verbatim>\<open>handleClick\<close>, exactly when it is not \<^verbatim>\<open>null\<close>.\<close>

lemma boardOk_update:
  "boardOk squares \<Longrightarrow> boardOk (squares[i := Str (playerOf x)])"
  using set_update_subset_insert [of squares i "Str (playerOf x)"]
  by (auto simp: boardOk_def playerOf_def)

lemma historyOk_handlePlay:
  "historyOk s \<Longrightarrow> boardOk b \<Longrightarrow> historyOk (handlePlay b s)"
  using set_take_subset [of _ "history s"]
  by (auto simp: historyOk_def handlePlay_fields sliceTo_def Let_def)

lemma historyOk_currentSquares:
  assumes "historyOk s" and "currentSquares s = Some squares"
  shows "boardOk squares"
proof -
  from assms(2) have "nat (currentMove s) < length (history s)"
    and "squares = history s ! nat (currentMove s)"
    by (auto simp: currentSquares_def split: if_splits)
  then have "squares \<in> set (history s)"
    by simp
  with assms(1) show ?thesis
    by (auto simp: historyOk_def)
qed

lemma historyOk_uiStep:
  assumes "historyOk s" and "uiStep s e = Some s'"
  shows "historyOk s'"
proof (cases e)
  case (SquareClick i)
  with assms(2) obtain squares where sq: "currentSquares s = Some squares"
    and i: "i < length squares"
    and s': "s' = handleClick (xIsNext s) squares handlePlay i s"
    by (auto split: option.splits if_splits)
  from assms(1) sq have "boardOk squares"
    by (rule historyOk_currentSquares)
  then have "boardOk (assign squares i (Str (playerOf (xIsNext s))))"
    using i by (simp add: assign_def boardOk_update)
  with assms(1) show ?thesis
    by (simp add: s' handleClick_def historyOk_handlePlay)
next
  case (JumpClick i)
  with assms show ?thesis
    by (auto simp: historyOk_def jumpTo_def setCurrentMove_def split: if_splits)
qed

lemma historyOk_uiRun:
  "historyOk s \<Longrightarrow> uiRun s es = Some s' \<Longrightarrow> historyOk s'"
proof (induction es arbitrary: s)
  case Nil
  then show ?case by simp
next
  case (Cons e es)
  from Cons.prems(2) obtain t where t: "uiStep s e = Some t" and r: "uiRun t es = Some s'"
    by (auto split: option.splits)
  from Cons.prems(1) t have "historyOk t"
    by (rule historyOk_uiStep)
  then show ?case using r by (rule Cons.IH)
qed

lemma historyOk_initialState: "historyOk initialState"
  by (simp add: historyOk_def initialState_def boardOk_def)

lemma boardOk_cell:
  "boardOk squares \<Longrightarrow> k < 9 \<Longrightarrow> cellAt squares k \<noteq> Null \<longleftrightarrow> truthy (cellAt squares k)"
proof -
  assume ok: "boardOk squares" and k: "k < 9"
  then have "squares ! k \<in> set squares"
    by (simp add: boardOk_def)
  with ok have "squares ! k \<in> {Null, Str ''X'', Str ''O''}"
    by (auto simp: boardOk_def)
  with ok k show ?thesis
    by (auto simp: cellAt_def boardOk_def)
qed

lemma boardOk_full:
  assumes "boardOk squares" and "calculateTurns squares = 9" and "k < 9"
  shows "truthy (cellAt squares k)"
proof (rule full_board_truthy)
  from assms show "calculateTurns squares = int (length squares)"
    by (simp add: boardOk_def)
  from assms(1) show "\<forall>c \<in> set squares. c = Null \<or> truthy c"
    by (auto simp: boardOk_def)
  from assms show "k < length squares"
    by (simp add: boardOk_def)
qed

section \<open>Claims about the game\<close>

text \<open>
  C3. For a history \<open>H\<close>, a current move \<open>m\<close> with \<open>0 \<le> m < length H\<close> and a board \<open>b\<close>,
  \<^verbatim>\<open>handlePlay(b)\<close> leaves the history made of the first \<open>m + 1\<close> entries of \<open>H\<close> followed by
  \<open>b\<close>, every later entry being dropped, and sets the current move to \<open>m + 1\<close>, the last index
  of the new history. Hence a play after a jump to move 0 leaves a history of two entries; so
  it is after five moves, a click on the first history button and one more move.
\<close>

theorem play_truncates_then_appends:
  "(0 \<le> m \<and> m < int (length H) \<longrightarrow>
      handlePlay b \<lparr>history = H, currentMove = m\<rparr>
        = \<lparr>history = take (nat m + 1) H @ [b], currentMove = m + 1\<rparr>
      \<and> m + 1 = int (length (take (nat m + 1) H @ [b])) - 1)
   \<and> (H' \<noteq> [] \<longrightarrow>
        length (history (handlePlay b' (jumpTo 0 \<lparr>history = H', currentMove = m'\<rparr>))) = 2)
   \<and> map_option (\<lambda>s. (length (history s), currentMove s)) (uiRun initialState fiveMoves)
        = Some (6, 5)
   \<and> map_option (\<lambda>s. (length (history s), currentMove s))
        (uiRun initialState (fiveMoves @ [JumpClick 0, SquareClick 5]))
        = Some (2, 1)"
proof (intro conjI impI)
  assume r: "0 \<le> m \<and> m < int (length H)"
  then have "nat m + 1 \<le> length H"
    by linarith
  then have l: "length (take (nat m + 1) H) = nat m + 1"
    by simp
  from r show "handlePlay b \<lparr>history = H, currentMove = m\<rparr>
        = \<lparr>history = take (nat m + 1) H @ [b], currentMove = m + 1\<rparr>"
    by (simp add: handlePlay_in_range)
  from r show "m + 1 = int (length (take (nat m + 1) H @ [b])) - 1"
    unfolding length_append l by simp
next
  assume "H' \<noteq> []"
  then have "0 < length H'"
    by simp
  then have "handlePlay b' (jumpTo 0 \<lparr>history = H', currentMove = m'\<rparr>)
      = \<lparr>history = take 1 H' @ [b'], currentMove = 1\<rparr>"
    by (simp add: jumpTo_def setCurrentMove_def handlePlay_in_range)
  with \<open>H' \<noteq> []\<close> show
    "length (history (handlePlay b' (jumpTo 0 \<lparr>history = H', currentMove = m'\<rparr>))) = 2"
    by (cases H') simp_all
next
  show "map_option (\<lambda>s. (length (history s), currentMove s)) (uiRun initialState fiveMoves)
        = Some (6, 5)"
    by code_simp
  show "map_option (\<lambda>s. (length (history s), currentMove s))
        (uiRun initialState (fiveMoves @ [JumpClick 0, SquareClick 5]))
        = Some (2, 1)"
    by code_simp
qed

theorem play_truncates_then_appends_witness:
  "handlePlay [Str ''X'', Str ''O'', Null, Null, Str ''X'', Null, Null, Null, Null]
     \<lparr>history = [replicate 9 Null,
                 [Null, Null, Null, Null, Str ''X'', Null, Null, Null, Null],
                 [Null, Null, Null, Null, Str ''X'', Null, Null, Null, Str ''O''],
                 [Null, Null, Str ''X'', Null, Str ''X'', Null, Null, Null, Str ''O'']],
      currentMove = 1\<rparr>
   = \<lparr>history = [replicate 9 Null,
                  [Null, Null, Null, Null, Str ''X'', Null, Null, Null, Null],
                  [Str ''X'', Str ''O'', Null, Null, Str ''X'', Null, Null, Null, Null]],
       currentMove = 2\<rparr>
   \<and> length (history (handlePlay [Str ''X'', Null, Null, Null, Null, Null, Null, Null, Null]
        (jumpTo 0
          \<lparr>history = [replicate 9 Null,
                      [Null, Null, Null, Null, Str ''X'', Null, Null, Null, Null],
                      [Null, Null, Null, Null, Str ''X'', Null, Null, Null, Str ''O'']],
           currentMove = 2\<rparr>))) = 2"
  using play_truncates_then_appends
    [of 1 "[replicate 9 Null,
            [Null, Null, Null, Null, Str ''X'', Null, Null, Null, Null],
            [Null, Null, Null, Null, Str ''X'', Null, Null, Null, Str ''O''],
            [Null, Null, Str ''X'', Null, Str ''X'', Null, Null, Null, Str ''O'']]"
        "[Str ''X'', Str ''O'', Null, Null, Str ''X'', Null, Null, Null, Null]"
        "[replicate 9 Null,
          [Null, Null, Null, Null, Str ''X'', Null, Null, Null, Null],
          [Null, Null, Null, Null, Str ''X'', Null, Null, Null, Str ''O'']]"
        "[Str ''X'', Null, Null, Null, Null, Null, Null, Null, Null]" 2]
  by simp

text \<open>
  C5. In every state and for every index \<open>i\<close>, \<^verbatim>\<open>jumpTo(i)\<close> leaves the history as it is and
  replaces the current move by \<open>i\<close>, whether or not \<open>i\<close> is an index of the history.
\<close>

theorem jump_changes_currentMove_only:
  "jumpTo i s = s\<lparr>currentMove := i\<rparr>
   \<and> history (jumpTo i s) = history s
   \<and> currentMove (jumpTo i s) = i"
  by (simp add: jumpTo_def setCurrentMove_def)

text \<open>
  C6. A click on a square of the displayed board that already holds a marker, and any click
  while the displayed board has a winner, leaves the whole state as it is. In particular, on a
  displayed board of nine squares that are all filled, with no filled line, a click on any of
  the nine squares changes nothing. A square is occupied when \<^verbatim>\<open>handleClick\<close> finds a marker
  in it; in every state reached from the initial state through the page that is any square
  other than \<^verbatim>\<open>null\<close>, and there a click on such a square, a click on a board with a
  winner and a click on a board with nine filled squares all change nothing.
\<close>

theorem click_ignored:
  "(currentSquares s = Some squares
      \<and> (truthy (cellAt squares i) \<or> calculateWinner squares \<noteq> Null)
    \<longrightarrow> handleClick (xIsNext s) squares handlePlay i s = s \<and> clickSquare i s = Inr s)
   \<and> (currentSquares t = Some full \<and> length full = 9 \<and> calculateTurns full = 9
        \<and> (\<forall>c \<in> set full. c = Null \<or> truthy c) \<and> calculateWinner full = Null \<and> j < 9
    \<longrightarrow> clickSquare j t = Inr t \<and> uiStep t (SquareClick j) = Some t)
   \<and> (uiRun initialState es = Some r \<and> currentSquares r = Some shown \<and> k < 9
        \<and> (cellAt shown k \<noteq> Null \<or> calculateWinner shown \<noteq> Null \<or> calculateTurns shown = 9)
    \<longrightarrow> uiStep r (SquareClick k) = Some r)"
proof (intro conjI impI)
  assume h: "currentSquares s = Some squares
      \<and> (truthy (cellAt squares i) \<or> calculateWinner squares \<noteq> Null)"
  then have "truthy (cellAt squares i) \<or> truthy (calculateWinner squares)"
    by (simp add: calculateWinner_truthy_iff)
  then show c: "handleClick (xIsNext s) squares handlePlay i s = s"
    by (simp add: handleClick_def)
  from h c show "clickSquare i s = Inr s"
    by (simp add: clickSquare_def)
next
  assume h: "currentSquares t = Some full \<and> length full = 9 \<and> calculateTurns full = 9
        \<and> (\<forall>c \<in> set full. c = Null \<or> truthy c) \<and> calculateWinner full = Null \<and> j < 9"
  then have "calculateTurns full = int (length full)"
    and "\<forall>c \<in> set full. c = Null \<or> truthy c" and j: "j < length full"
    by simp_all
  then have f: "truthy (cellAt full j)"
    by (rule full_board_truthy)
  then have c: "handleClick (xIsNext t) full handlePlay j t = t"
    by (simp add: handleClick_def)
  from h c show "clickSquare j t = Inr t"
    by (simp add: clickSquare_def)
  from f j have "full ! j \<noteq> Undefined"
    by (auto simp: cellAt_def)
  with h c j show "uiStep t (SquareClick j) = Some t"
    by simp
next
  assume h: "uiRun initialState es = Some r \<and> currentSquares r = Some shown \<and> k < 9
      \<and> (cellAt shown k \<noteq> Null \<or> calculateWinner shown \<noteq> Null \<or> calculateTurns shown = 9)"
  then have "historyOk r"
    using historyOk_uiRun [OF historyOk_initialState] by blast
  with h have ok: "boardOk shown"
    by (blast intro: historyOk_currentSquares)
  from h have k: "k < 9" by simp
  from h consider "cellAt shown k \<noteq> Null" | "calculateWinner shown \<noteq> Null"
    | "calculateTurns shown = 9"
    by blast
  then have "truthy (cellAt shown k) \<or> truthy (calculateWinner shown)"
  proof cases
    case 1
    with ok k show ?thesis by (simp add: boardOk_cell)
  next
    case 2
    then show ?thesis by (simp add: calculateWinner_truthy_iff)
  next
    case 3
    with ok k show ?thesis by (simp add: boardOk_full)
  qed
  then have c: "handleClick (xIsNext r) shown handlePlay k r = r"
    by (simp add: handleClick_def)
  from ok k have "k < length shown"
    by (simp add: boardOk_def)
  moreover from this have "shown ! k \<in> set shown"
    by simp
  with ok have "shown ! k \<noteq> Undefined"
    by (auto simp: boardOk_def)
  ultimately show "uiStep r (SquareClick k) = Some r"
    using h c by simp
qed

theorem click_ignored_witness:
  "clickSquare 4
     \<lparr>history = [replicate 9 Null, [Null, Null, Null, Null, Str ''X'', Null, Null, Null, Null]],
      currentMove = 1\<rparr>
   = Inr \<lparr>history = [replicate 9 Null, [Null, Null, Null, Null, Str ''X'', Null, Null, Null, Null]],
          currentMove = 1\<rparr>
   \<and> clickSquare 3 \<lparr>history = [replicate 9 Null, drawnBoard], currentMove = 1\<rparr>
       = Inr \<lparr>history = [replicate 9 Null, drawnBoard], currentMove = 1\<rparr>
   \<and> uiStep \<lparr>history = [replicate 9 Null, drawnBoard], currentMove = 1\<rparr> (SquareClick 3)
       = Some \<lparr>history = [replicate 9 Null, drawnBoard], currentMove = 1\<rparr>
   \<and> uiRun initialState [SquareClick 4]
       = Some \<lparr>history = [replicate 9 Null,
                          [Null, Null, Null, Null, Str ''X'', Null, Null, Null, Null]],
               currentMove = 1\<rparr>
   \<and> uiStep \<lparr>history = [replicate 9 Null,
                        [Null, Null, Null, Null, Str ''X'', Null, Null, Null, Null]],
             currentMove = 1\<rparr> (SquareClick 4)
       = Some \<lparr>history = [replicate 9 Null,
                          [Null, Null, Null, Null, Str ''X'', Null, Null, Null, Null]],
               currentMove = 1\<rparr>"
proof -
  have r: "uiRun initialState [SquareClick 4]
       = Some \<lparr>history = [replicate 9 Null,
                          [Null, Null, Null, Null, Str ''X'', Null, Null, Null, Null]],
               currentMove = 1\<rparr>"
    by code_simp
  have a: "currentSquares
      \<lparr>history = [replicate 9 Null, [Null, Null, Null, Null, Str ''X'', Null, Null, Null, Null]],
       currentMove = 1\<rparr>
     = Some [Null, Null, Null, Null, Str ''X'', Null, Null, Null, Null]
     \<and> (truthy (cellAt [Null, Null, Null, Null, Str ''X'', Null, Null, Null, Null] 4)
        \<or> calculateWinner [Null, Null, Null, Null, Str ''X'', Null, Null, Null, Null] \<noteq> Null)"
    by (simp add: currentSquares_def cellAt_def)
  have b: "currentSquares \<lparr>history = [replicate 9 Null, drawnBoard], currentMove = 1\<rparr>
       = Some drawnBoard
     \<and> length drawnBoard = 9 \<and> calculateTurns drawnBoard = 9
     \<and> (\<forall>c \<in> set drawnBoard. c = Null \<or> truthy c) \<and> calculateWinner drawnBoard = Null
     \<and> (3::nat) < 9"
    by (simp add: currentSquares_def calculateWinner_drawnBoard calculateTurns_drawnBoard)
      (simp add: drawnBoard_def)
  note T = click_ignored
    [of "\<lparr>history = [replicate 9 Null, [Null, Null, Null, Null, Str ''X'', Null, Null, Null, Null]],
          currentMove = 1\<rparr>"
        "[Null, Null, Null, Null, Str ''X'', Null, Null, Null, Null]" 4
        "\<lparr>history = [replicate 9 Null, drawnBoard], currentMove = 1\<rparr>" drawnBoard 3
        "[SquareClick 4]"
        "\<lparr>history = [replicate 9 Null, [Null, Null, Null, Null, Str ''X'', Null, Null, Null, Null]],
          currentMove = 1\<rparr>"
        "[Null, Null, Null, Null, Str ''X'', Null, Null, Null, Null]" 4]
  from a r have c: "uiRun initialState [SquareClick 4]
       = Some \<lparr>history = [replicate 9 Null,
                          [Null, Null, Null, Null, Str ''X'', Null, Null, Null, Null]],
               currentMove = 1\<rparr>
     \<and> currentSquares
         \<lparr>history = [replicate 9 Null, [Null, Null, Null, Null, Str ''X'', Null, Null, Null, Null]],
          currentMove = 1\<rparr>
       = Some [Null, Null, Null, Null, Str ''X'', Null, Null, Null, Null]
     \<and> (4::nat) < 9
     \<and> (cellAt [Null, Null, Null, Null, Str ''X'', Null, Null, Null, Null] 4 \<noteq> Null
        \<or> calculateWinner [Null, Null, Null, Null, Str ''X'', Null, Null, Null, Null] \<noteq> Null
        \<or> calculateTurns [Null, Null, Null, Null, Str ''X'', Null, Null, Null, Null] = 9)"
    by (simp add: cellAt_def)
  from T [THEN conjunct1, THEN mp, OF a, THEN conjunct2]
    T [THEN conjunct2, THEN conjunct1, THEN mp, OF b]
    r T [THEN conjunct2, THEN conjunct2, THEN mp, OF c]
  show ?thesis
    by - (elim conjE, (intro conjI; assumption))
qed

text \<open>
  C8. When the displayed board has no winner, a click on an empty square \<open>i\<close> of it plays the
  board that holds the marker of the active player at index \<open>i\<close> and equals the displayed board
  at every other index; the active player is X when the current move is even and O when it is
  odd. The played board becomes the displayed one, one move later. In particular, a click on
  square 4 of the empty starting board gives a second board with X in square 4 alone, the
  current move 1 and the status \<^verbatim>\<open>"Next player: O"\<close>, in both renderings.
\<close>

theorem click_places_marker:
  "(currentSquares s = Some squares \<and> cellAt squares i = Null \<and> calculateWinner squares = Null
    \<longrightarrow> (let nextSquares = squares[i := Str (markerOfMove (currentMove s))];
             s' = handlePlay nextSquares s
         in clickSquare i s = Inr s'
            \<and> length nextSquares = length squares
            \<and> cellAt nextSquares i = Str (markerOfMove (currentMove s))
            \<and> (\<forall>j. j \<noteq> i \<longrightarrow> cellAt nextSquares j = cellAt squares j)
            \<and> history s' = take (nat (currentMove s) + 1) (history s) @ [nextSquares]
            \<and> currentMove s' = currentMove s + 1
            \<and> currentSquares s' = Some nextSquares))
   \<and> clickSquare 4 initialState
       = Inr \<lparr>history = [replicate 9 Null,
                         [Null, Null, Null, Null, Str ''X'', Null, Null, Null, Null]],
              currentMove = 1\<rparr>
   \<and> gameStatus \<lparr>history = [replicate 9 Null,
                            [Null, Null, Null, Null, Str ''X'', Null, Null, Null, Null]],
                 currentMove = 1\<rparr>
       = Inr ''Next player: O''
   \<and> gameStatus2 \<lparr>history = [replicate 9 Null,
                             [Null, Null, Null, Null, Str ''X'', Null, Null, Null, Null]],
                  currentMove = 1\<rparr>
       = Inr ''Next player: O''"
proof (intro conjI impI)
  assume h: "currentSquares s = Some squares \<and> cellAt squares i = Null
      \<and> calculateWinner squares = Null"
  define nextSquares where "nextSquares = squares[i := Str (markerOfMove (currentMove s))]"
  from h have i: "i < length squares"
    by (auto simp: cellAt_def split: if_splits)
  from h have range: "0 \<le> currentMove s" "currentMove s < int (length (history s))"
    by (simp_all add: currentSquares_range)
  have p: "playerOf (xIsNext s) = markerOfMove (currentMove s)"
    by (simp add: playerOf_def xIsNext_def markerOfMove_def even_iff_mod_2_eq_zero)
  from h i have "handleClick (xIsNext s) squares handlePlay i s = handlePlay nextSquares s"
    by (simp add: handleClick_def assign_def p nextSquares_def)
  with h have 1: "clickSquare i s = Inr (handlePlay nextSquares s)"
    by (simp add: clickSquare_def)
  have 2: "length nextSquares = length squares"
    by (simp add: nextSquares_def)
  from i have 3: "cellAt nextSquares i = Str (markerOfMove (currentMove s))"
    by (simp add: nextSquares_def cellAt_def)
  have 4: "\<forall>j. j \<noteq> i \<longrightarrow> cellAt nextSquares j = cellAt squares j"
    by (simp add: nextSquares_def cellAt_def)
  have 5: "history (handlePlay nextSquares s)
      = take (nat (currentMove s) + 1) (history s) @ [nextSquares]"
    and 6: "currentMove (handlePlay nextSquares s) = currentMove s + 1"
    by (simp_all add: handlePlay_in_range [OF range])
  have 7: "currentSquares (handlePlay nextSquares s) = Some nextSquares"
    using range by (rule currentSquares_handlePlay)
  from 1 2 3 4 5 6 7
  show "let nextSquares = squares[i := Str (markerOfMove (currentMove s))];
            s' = handlePlay nextSquares s
        in clickSquare i s = Inr s'
           \<and> length nextSquares = length squares
           \<and> cellAt nextSquares i = Str (markerOfMove (currentMove s))
           \<and> (\<forall>j. j \<noteq> i \<longrightarrow> cellAt nextSquares j = cellAt squares j)
           \<and> history s' = take (nat (currentMove s) + 1) (history s) @ [nextSquares]
           \<and> currentMove s' = currentMove s + 1
           \<and> currentSquares s' = Some nextSquares"
    unfolding Let_def nextSquares_def by blast
next
  show "clickSquare 4 initialState
       = Inr \<lparr>history = [replicate 9 Null,
                         [Null, Null, Null, Null, Str ''X'', Null, Null, Null, Null]],
              currentMove = 1\<rparr>"
    by code_simp
  show "gameStatus \<lparr>history = [replicate 9 Null,
                            [Null, Null, Null, Null, Str ''X'', Null, Null, Null, Null]],
                 currentMove = 1\<rparr>
       = Inr ''Next player: O''"
    by code_simp
  show "gameStatus2 \<lparr>history = [replicate 9 Null,
                             [Null, Null, Null, Null, Str ''X'', Null, Null, Null, Null]],
                  currentMove = 1\<rparr>
       = Inr ''Next player: O''"
    by code_simp
qed

theorem click_places_marker_witness:
  "clickSquare 0
     \<lparr>history = [replicate 9 Null, [Null, Null, Null, Null, Str ''X'', Null, Null, Null, Null]],
      currentMove = 1\<rparr>
   = Inr \<lparr>history = [replicate 9 Null,
                     [Null, Null, Null, Null, Str ''X'', Null, Null, Null, Null],
                     [Str ''O'', Null, Null, Null, Str ''X'', Null, Null, Null, Null]],
          currentMove = 2\<rparr>"
proof -
  have a: "currentSquares
      \<lparr>history = [replicate 9 Null, [Null, Null, Null, Null, Str ''X'', Null, Null, Null, Null]],
       currentMove = 1\<rparr>
     = Some [Null, Null, Null, Null, Str ''X'', Null, Null, Null, Null]
     \<and> cellAt [Null, Null, Null, Null, Str ''X'', Null, Null, Null, Null] 0 = Null
     \<and> calculateWinner [Null, Null, Null, Null, Str ''X'', Null, Null, Null, Null] = Null"
    by (simp add: currentSquares_def cellAt_def calculateWinner_def WINNING_LINES_def)
  have b: "handlePlay [Str ''O'', Null, Null, Null, Str ''X'', Null, Null, Null, Null]
      \<lparr>history = [replicate 9 Null, [Null, Null, Null, Null, Str ''X'', Null, Null, Null, Null]],
       currentMove = 1\<rparr>
     = \<lparr>history = [replicate 9 Null,
                     [Null, Null, Null, Null, Str ''X'', Null, Null, Null, Null],
                     [Str ''O'', Null, Null, Null, Str ''X'', Null, Null, Null, Null]],
          currentMove = 2\<rparr>"
    by code_simp
  from click_places_marker
    [of "\<lparr>history = [replicate 9 Null, [Null, Null, Null, Null, Str ''X'', Null, Null, Null, Null]],
          currentMove = 1\<rparr>"
        "[Null, Null, Null, Null, Str ''X'', Null, Null, Null, Null]" 0,
     THEN conjunct1, THEN mp, OF a]
  show ?thesis
    by (simp add: Let_def markerOfMove_def b)
qed

text \<open>
  C9. Every state reached from the initial state by clicks on the buttons the page shows
  (squares of the displayed board, and history entries) has a history of at least one board and
  a current move that is an index of the history.
\<close>

theorem ui_preserves_invariant:
  "uiRun initialState es = Some s
   \<Longrightarrow> 1 \<le> length (history s) \<and> 0 \<le> currentMove s \<and> currentMove s < int (length (history s))"
  using storeInvariant_uiRun [OF storeInvariant_initialState, of es s]
  by (simp add: storeInvariant_def)

theorem ui_preserves_invariant_witness:
  "uiRun initialState [SquareClick 4, SquareClick 4, SquareClick 0, JumpClick 1]
     = Some \<lparr>history = [replicate 9 Null,
                        [Null, Null, Null, Null, Str ''X'', Null, Null, Null, Null],
                        [Str ''O'', Null, Null, Null, Str ''X'', Null, Null, Null, Null]],
             currentMove = 1\<rparr>
   \<and> 1 \<le> length (history
        \<lparr>history = [replicate 9 Null,
                    [Null, Null, Null, Null, Str ''X'', Null, Null, Null, Null],
                    [Str ''O'', Null, Null, Null, Str ''X'', Null, Null, Null, Null]],
         currentMove = 1\<rparr>)
   \<and> currentMove
        \<lparr>history = [replicate 9 Null,
                    [Null, Null, Null, Null, Str ''X'', Null, Null, Null, Null],
                    [Str ''O'', Null, Null, Null, Str ''X'', Null, Null, Null, Null]],
         currentMove = 1\<rparr>
       < int (length (history
        \<lparr>history = [replicate 9 Null,
                    [Null, Null, Null, Null, Str ''X'', Null, Null, Null, Null],
                    [Str ''O'', Null, Null, Null, Str ''X'', Null, Null, Null, Null]],
         currentMove = 1\<rparr>))"
proof -
  have r: "uiRun initialState [SquareClick 4, SquareClick 4, SquareClick 0, JumpClick 1]
     = Some \<lparr>history = [replicate 9 Null,
                        [Null, Null, Null, Null, Str ''X'', Null, Null, Null, Null],
                        [Str ''O'', Null, Null, Null, Str ''X'', Null, Null, Null, Null]],
             currentMove = 1\<rparr>"
    by code_simp
  from ui_preserves_invariant [OF r] r show ?thesis
    by (intro conjI) (elim conjE, assumption)+
qed

end
